theory Spec2Isabelle
  imports Complex_Main
begin

section \<open>Values crossing the HTTP boundary\<close>

text \<open>
  Both programs exchange JSON. A decoded JSON document is a Python value: \<open>None\<close>, a
  \<open>bool\<close>, an \<open>int\<close>, a \<open>float\<close>, a \<open>str\<close>, a \<open>list\<close> or a \<open>dict\<close> with string keys.
  A dict is an association list in insertion order; its keys are distinct.
\<close>

datatype json =
    JNull
  | JBool bool
  | JInt int
  | JFloat real
  | JStr string
  | JArr "json list"
  | JObj "(string \<times> json) list"

text \<open>Python truthiness, as used by \<open>if not data\<close> and \<open>if st.session_state.metrics\<close>.\<close>

fun truthy :: "json \<Rightarrow> bool" where
  "truthy JNull = False"
| "truthy (JBool b) = b"
| "truthy (JInt i) = (i \<noteq> 0)"
| "truthy (JFloat x) = (x \<noteq> 0)"
| "truthy (JStr s) = (s \<noteq> [])"
| "truthy (JArr xs) = (xs \<noteq> [])"
| "truthy (JObj kvs) = (kvs \<noteq> [])"

text \<open>\<open>type(v).__name__\<close>, which Python puts into the text of a \<open>TypeError\<close>.\<close>

fun type_name :: "json \<Rightarrow> string" where
  "type_name JNull = ''NoneType''"
| "type_name (JBool b) = ''bool''"
| "type_name (JInt i) = ''int''"
| "type_name (JFloat x) = ''float''"
| "type_name (JStr s) = ''str''"
| "type_name (JArr xs) = ''list''"
| "type_name (JObj kvs) = ''dict''"

text \<open>
  An exception is either FastAPI's \<open>HTTPException(status_code, detail)\<close> or any other
  exception, of which the programs only ever read \<open>str(e)\<close>.
\<close>

datatype exn =
    HTTPException nat string
  | Exception string

text \<open>
  \<open>v[0]\<close> and \<open>v["key"]\<close> on a decoded JSON value. \<open>quoted s\<close> is \<open>s\<close> between
  single quotes, as \<open>repr\<close> prints a plain string.
\<close>

definition quoted :: "string \<Rightarrow> string" where
  "quoted s = [CHR 0x27] @ s @ [CHR 0x27]"

fun getitem0 :: "json \<Rightarrow> exn + json" where
  "getitem0 (JArr (x # xs)) = Inr x"
| "getitem0 (JArr []) = Inl (Exception ''list index out of range'')"
| "getitem0 (JStr (c # cs)) = Inr (JStr [c])"
| "getitem0 (JStr []) = Inl (Exception ''string index out of range'')"
| "getitem0 (JObj kvs) = Inl (Exception ''0'')"
| "getitem0 v = Inl (Exception (quoted (type_name v) @ '' object is not subscriptable''))"

fun getitem :: "json \<Rightarrow> string \<Rightarrow> exn + json" where
  "getitem (JObj kvs) k =
     (case map_of kvs k of
        None \<Rightarrow> Inl (Exception (quoted k))
      | Some v \<Rightarrow> Inr v)"
| "getitem (JArr xs) k = Inl (Exception ''list indices must be integers or slices, not str'')"
| "getitem (JStr s) k = Inl (Exception (''string indices must be integers, not '' @ quoted ''str''))"
| "getitem v k = Inl (Exception (quoted (type_name v) @ '' object is not subscriptable''))"

section \<open>The HTTP client library\<close>

text \<open>
  What \<open>requests.get\<close> hands back. A response carries its status line and its body;
  \<open>response.json()\<close> either decodes the body or raises a decode error with a message.
\<close>

datatype body = Undecodable string | Decoded json

record response =
  status_code :: nat
  reason :: string
  content :: body

text \<open>
  The exceptions of \<open>requests\<close> that the client tells apart: \<open>ConnectionError\<close>,
  \<open>Timeout\<close>, and every other \<open>RequestException\<close>, which may carry the response it
  was raised for. Each holds its \<open>str(e)\<close>.
\<close>

datatype request_error =
    ConnectionError string
  | Timeout string
  | RequestException string "response option"

fun str_request_error :: "request_error \<Rightarrow> string" where
  "str_request_error (ConnectionError m) = m"
| "str_request_error (Timeout m) = m"
| "str_request_error (RequestException m r) = m"

text \<open>The network is a function from the requested URL to what \<open>requests.get\<close> does.\<close>

type_synonym network = "string \<Rightarrow> request_error + response"

section \<open>Python's float arithmetic\<close>

text \<open>
  A Python \<open>float\<close> is an IEEE 754 binary64 number, and \<open>+\<close>, \<open>-\<close>, \<open>*\<close>, \<open>/\<close> return
  the exact result rounded to the nearest binary64 number, ties to the even significand.
  A finite float is modelled by the real number it denotes. \<open>expo x\<close> is the binade of
  \<open>x\<close> (clamped at the subnormal range), \<open>ulp x\<close> the spacing of the floats there,
  \<open>rne\<close> rounds to the nearest integer with ties to even, and \<open>b64\<close> rounds a real to
  binary64. Overflow to \<open>inf\<close>, for magnitudes of \<open>2 ^ 1024\<close> and beyond, is outside the
  model.
\<close>

definition expo :: "real \<Rightarrow> int" where
  "expo x = (if \<bar>x\<bar> < 2 powi (- 1022) then - 1022 else \<lfloor>log 2 \<bar>x\<bar>\<rfloor>)"

definition ulp :: "real \<Rightarrow> real" where
  "ulp x = 2 powi (expo x - 52)"

definition rne :: "real \<Rightarrow> int" where
  "rne y =
     (if y - of_int \<lfloor>y\<rfloor> < 1 / 2 then \<lfloor>y\<rfloor>
      else if 1 / 2 < y - of_int \<lfloor>y\<rfloor> then \<lfloor>y\<rfloor> + 1
      else if even \<lfloor>y\<rfloor> then \<lfloor>y\<rfloor>
      else \<lfloor>y\<rfloor> + 1)"

definition b64 :: "real \<Rightarrow> real" where
  "b64 x = of_int (rne (x / ulp x)) * ulp x"

definition fadd :: "real \<Rightarrow> real \<Rightarrow> real" where
  "fadd x y = b64 (x + y)"

definition fsub :: "real \<Rightarrow> real \<Rightarrow> real" where
  "fsub x y = b64 (x - y)"

definition fmul :: "real \<Rightarrow> real \<Rightarrow> real" where
  "fmul x y = b64 (x * y)"

definition fdiv :: "real \<Rightarrow> real \<Rightarrow> real" where
  "fdiv x y = b64 (x / y)"

section \<open>The earth-observation service\<close>

text \<open>
  The image pipeline runs inside the remote service; the endpoints only build the
  request and read one number back. An image restricted to the region is the list of
  its valid pixels, each with the weight the reducer gives it (the fraction of the pixel
  inside the region) and its value. The service computes over the reals.
\<close>

type_synonym image = "(real \<times> real) list"

text \<open>
  Modelled from the spec: the image arithmetic of the service, absent from the
  repository (\<open>image.multiply(c)\<close>, \<open>.add(c)\<close>, \<open>.subtract(c)\<close>: the glossary's linear
  scale-and-offset transform, applied to each pixel).
\<close>

definition multiply :: "real \<Rightarrow> image \<Rightarrow> image" where
  "multiply c img = map (\<lambda>(w, v). (w, v * c)) img"

definition add :: "real \<Rightarrow> image \<Rightarrow> image" where
  "add c img = map (\<lambda>(w, v). (w, v + c)) img"

definition subtract :: "real \<Rightarrow> image \<Rightarrow> image" where
  "subtract c img = map (\<lambda>(w, v). (w, v - c)) img"

text \<open>
  Modelled from the spec: \<open>reduceRegion\<close> with \<open>ee.Reducer.mean()\<close> followed by
  \<open>.get(band).getInfo()\<close>, absent from the repository (glossary, region reduction: the
  mean of a per-pixel quantity over the region; no value when there are no valid
  pixels).
\<close>

definition total_weight :: "image \<Rightarrow> real" where
  "total_weight img = (\<Sum>(w, v) \<leftarrow> img. w)"

definition reduce_mean :: "image \<Rightarrow> real option" where
  "reduce_mean img =
     (if total_weight img = 0 then None
      else Some ((\<Sum>(w, v) \<leftarrow> img. w * v) / total_weight img))"

text \<open>
  The service as the endpoints see it: whether \<open>ee.Initialize\<close> has succeeded in this
  process, and, for a point \<open>(lon, lat)\<close>, either the error the service raises or the
  pixels of the clearest scene over the 2 km buffer: of the normalized difference of
  bands B8 and B4 for the Sentinel-2 collection, of band \<open>ST_B10\<close> for Landsat 8.
  Without initialization every call of the client library raises (the source says so at
  its initialization block: ``GEE-dependent endpoints will fail'').
\<close>

record earth_engine =
  initialized :: bool
  ndvi_pixels :: "json \<Rightarrow> json \<Rightarrow> string + image"
  st_b10_pixels :: "json \<Rightarrow> json \<Rightarrow> string + image"

definition not_initialized_message :: string where
  "not_initialized_message = ''Earth Engine client library not initialized. See http://goo.gle/ee-auth.''"

definition ee_scene :: "earth_engine \<Rightarrow> (json \<Rightarrow> json \<Rightarrow> string + image) \<Rightarrow> json \<Rightarrow> json \<Rightarrow> exn + image" where
  "ee_scene ee band lon lat =
     (if \<not> initialized ee then Inl (Exception not_initialized_message)
      else (case band lon lat of
              Inl m \<Rightarrow> Inl (Exception m)
            | Inr img \<Rightarrow> Inr img))"

section \<open>Python text\<close>

text \<open>
  A Python \<open>str\<close> is a sequence of Unicode code points; the city name of a request is
  one. The strings of this theory (URLs, JSON text, error details, the literals of the
  source) are byte strings, into which text is written in UTF-8; ASCII text is its own
  encoding.
\<close>

type_synonym str = "nat list"

definition utf8_char :: "nat \<Rightarrow> string" where
  "utf8_char c =
     (if c < 0x80 then [char_of c]
      else if c < 0x800 then [char_of (0xC0 + c div 0x40), char_of (0x80 + c mod 0x40)]
      else if c < 0x10000
      then [char_of (0xE0 + c div 0x1000), char_of (0x80 + c div 0x40 mod 0x40),
            char_of (0x80 + c mod 0x40)]
      else [char_of (0xF0 + c div 0x40000), char_of (0x80 + c div 0x1000 mod 0x40),
            char_of (0x80 + c div 0x40 mod 0x40), char_of (0x80 + c mod 0x40)])"

definition utf8 :: "str \<Rightarrow> string" where
  "utf8 s = concat (map utf8_char s)"

text \<open>
  \<open>str.title()\<close> and \<open>str.lower()\<close> are computed by the interpreter (CPython,
  \<open>do_title\<close> and \<open>do_lower\<close> in \<open>Objects/unicodeobject.c\<close>) from four properties of
  the Unicode character database, which is a parameter here: whether a code point is
  cased, whether it is case-ignorable, and its full lower-case and title-case mappings,
  each a sequence of code points.
\<close>

record unicode =
  cased :: "nat \<Rightarrow> bool"
  case_ignorable :: "nat \<Rightarrow> bool"
  to_lower :: "nat \<Rightarrow> str"
  to_title :: "nat \<Rightarrow> str"

text \<open>
  \<open>handle_capital_sigma\<close>: a capital sigma (U+03A3) is in final position when a cased
  code point precedes it, case-ignorable ones skipped, and none follows it. \<open>lower_ucs4\<close>
  lowers the code point \<open>c\<close> found between \<open>before\<close> and \<open>after\<close>.
\<close>

definition final_sigma :: "unicode \<Rightarrow> str \<Rightarrow> str \<Rightarrow> bool" where
  "final_sigma u before after =
     ((case dropWhile (case_ignorable u) (rev before) of [] \<Rightarrow> False | c # cs \<Rightarrow> cased u c)
      \<and> (case dropWhile (case_ignorable u) after of [] \<Rightarrow> True | c # cs \<Rightarrow> \<not> cased u c))"

definition lower_ucs4 :: "unicode \<Rightarrow> str \<Rightarrow> nat \<Rightarrow> str \<Rightarrow> str" where
  "lower_ucs4 u before c after =
     (if c = 0x3A3 then [if final_sigma u before after then 0x3C2 else 0x3C3]
      else to_lower u c)"

text \<open>
  \<open>do_title\<close>: a code point that follows a cased one is lowered, any other is mapped
  to title case. \<open>do_lower\<close> lowers every code point.
\<close>

fun title_from :: "unicode \<Rightarrow> str \<Rightarrow> bool \<Rightarrow> str \<Rightarrow> str" where
  "title_from u before previous_is_cased [] = []"
| "title_from u before previous_is_cased (c # cs) =
     (if previous_is_cased then lower_ucs4 u before c cs else to_title u c)
     @ title_from u (before @ [c]) (cased u c) cs"

definition title :: "unicode \<Rightarrow> str \<Rightarrow> str" where
  "title u s = title_from u [] False s"

fun lower_from :: "unicode \<Rightarrow> str \<Rightarrow> str \<Rightarrow> str" where
  "lower_from u before [] = []"
| "lower_from u before (c # cs) = lower_ucs4 u before c cs @ lower_from u (before @ [c]) cs"

definition lower :: "unicode \<Rightarrow> str \<Rightarrow> str" where
  "lower u s = lower_from u [] s"

text \<open>
  The part of the database that covers ASCII: the cased code points are the letters
  \<open>A-Z\<close> (65 to 90) and \<open>a-z\<close> (97 to 122), each letter has one lower-case and one
  title-case form, 32 apart, and every other code point below 128 is mapped to itself.
\<close>

definition is_ascii :: "str \<Rightarrow> bool" where
  "is_ascii s = (\<forall>c \<in> set s. c < 128)"

definition ascii_letter :: "nat \<Rightarrow> bool" where
  "ascii_letter c = (65 \<le> c \<and> c \<le> 90 \<or> 97 \<le> c \<and> c \<le> 122)"

definition ascii_lower :: "nat \<Rightarrow> nat" where
  "ascii_lower c = (if 65 \<le> c \<and> c \<le> 90 then c + 32 else c)"

definition ascii_upper :: "nat \<Rightarrow> nat" where
  "ascii_upper c = (if 97 \<le> c \<and> c \<le> 122 then c - 32 else c)"

definition ascii_casing :: "unicode \<Rightarrow> bool" where
  "ascii_casing u =
     (\<forall>c < 128. cased u c = ascii_letter c
        \<and> to_lower u c = [ascii_lower c]
        \<and> to_title u c = [ascii_upper c])"

section \<open>The server: main.py\<close>

text \<open>The two environment variables read at import time; \<open>os.getenv\<close> gives \<open>None\<close> when unset.\<close>

record config =
  OPENWEATHER_API_KEY :: "string option"
  GOOGLE_CLOUD_PROJECT :: "string option"

text \<open>\<open>not s\<close> for an optional string: true for \<open>None\<close> and for the empty string.\<close>

definition unset :: "string option \<Rightarrow> bool" where
  "unset s = (s = None \<or> s = Some [])"

text \<open>
  The initialization block (lines 28 to 36). \<open>ee_initialize\<close> is the library call: \<open>None\<close>
  when it succeeds, the exception text when it raises. The block returns whether the
  library is initialized afterwards and the line it prints; it never aborts the import.
\<close>

definition module_init :: "config \<Rightarrow> (string \<Rightarrow> string option) \<Rightarrow> bool \<times> string" where
  "module_init cfg ee_initialize =
     (if unset (GOOGLE_CLOUD_PROJECT cfg)
      then (False, ''ERROR: Google Earth Engine failed to initialize. Details: ''
                   @ ''GOOGLE_CLOUD_PROJECT environment variable not set.'')
      else (case ee_initialize (the (GOOGLE_CLOUD_PROJECT cfg)) of
              None \<Rightarrow> (True, ''Google Earth Engine Initialized Successfully.'')
            | Some e \<Rightarrow>
                (False, ''ERROR: Google Earth Engine failed to initialize. Details: '' @ e)))"

text \<open>The client library of the service once the module is imported.\<close>

definition start :: "config \<Rightarrow> (string \<Rightarrow> string option) \<Rightarrow> earth_engine \<Rightarrow> earth_engine" where
  "start cfg ee_initialize ee = ee\<lparr>initialized := fst (module_init cfg ee_initialize)\<rparr>"

definition geo_url :: "string \<Rightarrow> string \<Rightarrow> string" where
  "geo_url city_name key =
     ''http://api.openweathermap.org/geo/1.0/direct?q='' @ city_name @ ''&limit=1&appid='' @ key"

text \<open>
  \<open>response.json()\<close>, and the last line of \<open>get_city_coords\<close>:
  \<open>data[0]["lat"], data[0]["lon"]\<close>, evaluated left to right.
\<close>

definition response_json :: "response \<Rightarrow> exn + json" where
  "response_json r = (case content r of Undecodable m \<Rightarrow> Inl (Exception m) | Decoded j \<Rightarrow> Inr j)"

definition coords_of :: "json \<Rightarrow> exn + json \<times> json" where
  "coords_of data =
     (case getitem0 data of
        Inl e \<Rightarrow> Inl e
      | Inr d0 \<Rightarrow>
          (case getitem d0 ''lat'' of
             Inl e \<Rightarrow> Inl e
           | Inr lat \<Rightarrow>
               (case getitem0 data of
                  Inl e \<Rightarrow> Inl e
                | Inr d1 \<Rightarrow>
                    (case getitem d1 ''lon'' of
                       Inl e \<Rightarrow> Inl e
                     | Inr lon \<Rightarrow> Inr (lat, lon)))))"

definition get_city_coords :: "config \<Rightarrow> network \<Rightarrow> str \<Rightarrow> exn + json \<times> json" where
  "get_city_coords cfg net city_name =
     (if unset (OPENWEATHER_API_KEY cfg)
      then Inl (HTTPException 500 ''OpenWeatherMap API key is not configured on the server.'')
      else (case net (geo_url (utf8 city_name) (the (OPENWEATHER_API_KEY cfg))) of
              Inl e \<Rightarrow> Inl (Exception (str_request_error e))
            | Inr r \<Rightarrow>
                (if status_code r \<noteq> 200
                 then Inl (HTTPException 500 ''Failed to connect to Geocoding service.'')
                 else (case response_json r of
                         Inl e \<Rightarrow> Inl e
                       | Inr data \<Rightarrow>
                           (if \<not> truthy data
                            then Inl (HTTPException 404
                                   (''City '' @ quoted (utf8 city_name) @ '' not found.''))
                            else coords_of data)))))"

text \<open>
  The two \<open>except\<close> clauses that close each endpoint: an \<open>HTTPException\<close> is raised
  again, anything else becomes a 500.
\<close>

fun reraise :: "exn \<Rightarrow> exn" where
  "reraise (HTTPException code detail) = HTTPException code detail"
| "reraise (Exception m) =
     HTTPException 500 (''An error occurred with Google Earth Engine: '' @ m)"

definition green_cover_percentage :: "real \<Rightarrow> real" where
  "green_cover_percentage avg_ndvi = fmul (fadd avg_ndvi 1) 50"

definition get_green_cover :: "unicode \<Rightarrow> config \<Rightarrow> network \<Rightarrow> earth_engine \<Rightarrow> str \<Rightarrow> exn + json" where
  "get_green_cover u cfg net ee city =
     (case get_city_coords cfg net city of
        Inl e \<Rightarrow> Inl (reraise e)
      | Inr (lat, lon) \<Rightarrow>
          (case ee_scene ee (ndvi_pixels ee) lon lat of
             Inl e \<Rightarrow> Inl (reraise e)
           | Inr ndvi \<Rightarrow>
               (case reduce_mean ndvi of
                  None \<Rightarrow>
                    Inl (reraise (HTTPException 404
                      (''Could not compute NDVI for '' @ utf8 city
                       @ ''. No clear satellite imagery might be available.'')))
                | Some avg_ndvi \<Rightarrow>
                    Inr (JObj
                      [(''city'', JStr (utf8 (title u city))),
                       (''location'', JObj [(''lat'', lat), (''lon'', lon)]),
                       (''avg_ndvi'', JFloat avg_ndvi),
                       (''green_cover_percentage'', JFloat (green_cover_percentage avg_ndvi)),
                       (''data_source'', JStr ''Copernicus Sentinel-2'')]))))"

definition lst_celsius :: "image \<Rightarrow> image" where
  "lst_celsius st_b10 = subtract 273.15 (add 149.0 (multiply 0.00341802 st_b10))"

definition get_heat_map :: "unicode \<Rightarrow> config \<Rightarrow> network \<Rightarrow> earth_engine \<Rightarrow> str \<Rightarrow> exn + json" where
  "get_heat_map u cfg net ee city =
     (case get_city_coords cfg net city of
        Inl e \<Rightarrow> Inl (reraise e)
      | Inr (lat, lon) \<Rightarrow>
          (case ee_scene ee (st_b10_pixels ee) lon lat of
             Inl e \<Rightarrow> Inl (reraise e)
           | Inr st_b10 \<Rightarrow>
               (case reduce_mean (lst_celsius st_b10) of
                  None \<Rightarrow>
                    Inl (reraise (HTTPException 404
                      (''Could not compute LST for '' @ utf8 city
                       @ ''. No clear satellite imagery might be available.'')))
                | Some avg_lst_celsius \<Rightarrow>
                    Inr (JObj
                      [(''city'', JStr (utf8 (title u city))),
                       (''location'', JObj [(''lat'', lat), (''lon'', lon)]),
                       (''avg_lst_celsius'', JFloat avg_lst_celsius),
                       (''data_source'', JStr ''USGS Landsat 8'')]))))"

section \<open>The helper module: gee\_data.py\<close>

text \<open>
  \<open>get_heatmap\<close> samples one raw value \<open>lst\<close> from the service and returns
  \<open>{"avg_temp": lst/10}\<close>, a Python float division.
\<close>

definition get_heatmap :: "real \<Rightarrow> json" where
  "get_heatmap lst = JObj [(''avg_temp'', JFloat (fdiv lst 10))]"

section \<open>The dashboard client: app.py\<close>

text \<open>
  What the client takes from Python and its libraries without computing it itself:
  \<open>str(v)\<close> of a decoded JSON value inside an f-string, \<open>format(x, ".nf")\<close> of a
  number, whether \<open>folium\<close> accepts a pair as a map location, and the Unicode
  character database behind \<open>str.title()\<close>.
\<close>

record library =
  ucd :: unicode
  str_json :: "json \<Rightarrow> string"
  format_f :: "nat \<Rightarrow> real \<Rightarrow> string"
  folium_accepts :: "json \<Rightarrow> json \<Rightarrow> bool"

text \<open>\<open>str(n)\<close> of a status code.\<close>

function str_nat :: "nat \<Rightarrow> string" where
  "str_nat n =
     (if n < 10 then [char_of (48 + n)]
      else str_nat (n div 10) @ [char_of (48 + n mod 10)])"
  by pat_completeness auto
termination
  by (relation "measure id") auto

declare str_nat.simps [simp del]

text \<open>
  \<open>Response.ok\<close>, which is also the truth value of a response object, and
  \<open>Response.raise_for_status()\<close>: for the status codes 400 to 599 it raises an
  \<open>HTTPError\<close> (a \<open>RequestException\<close>) that carries the response, and whose text is
  returned here; otherwise it does nothing.
\<close>

definition ok :: "response \<Rightarrow> bool" where
  "ok r = (\<not> (400 \<le> status_code r \<and> status_code r < 600))"

definition raise_for_status :: "string \<Rightarrow> response \<Rightarrow> string option" where
  "raise_for_status url r =
     (if 400 \<le> status_code r \<and> status_code r < 500
      then Some (str_nat (status_code r) @ '' Client Error: '' @ reason r @ '' for url: '' @ url)
      else if 500 \<le> status_code r \<and> status_code r < 600
      then Some (str_nat (status_code r) @ '' Server Error: '' @ reason r @ '' for url: '' @ url)
      else None)"

text \<open>\<open>d.get(key, default)\<close>; only a dict has the method.\<close>

fun dict_get :: "json \<Rightarrow> string \<Rightarrow> json \<Rightarrow> exn + json" where
  "dict_get (JObj kvs) k dflt = (case map_of kvs k of None \<Rightarrow> Inr dflt | Some v \<Rightarrow> Inr v)"
| "dict_get v k dflt =
     Inl (Exception (quoted (type_name v) @ '' object has no attribute '' @ quoted ''get''))"

definition API_BASE_URL :: string where
  "API_BASE_URL = ''http://127.0.0.1:8000''"

definition endpoint_map :: "(string \<times> string) list" where
  "endpoint_map = [(''Green Cover'', ''green''), (''Heat Map'', ''heatmap'')]"

text \<open>
  The third \<open>except\<close> clause of \<open>get_city_data\<close>, for a \<open>RequestException\<close> with text
  \<open>m\<close> and attached response \<open>resp\<close>. The test \<open>if e.response\<close> is the truth value of
  the response, false for \<open>None\<close> and for every response that is not \<open>ok\<close>. An exception
  raised inside the clause leaves the function.
\<close>

definition on_request_exception :: "library \<Rightarrow> string \<Rightarrow> response option \<Rightarrow> exn + json" where
  "on_request_exception lib m resp =
     (case (case resp of
              None \<Rightarrow> Inr (JObj [])
            | Some r \<Rightarrow> (if ok r then response_json r else Inr (JObj []))) of
        Inl e \<Rightarrow> Inl e
      | Inr error_data \<Rightarrow>
          (case dict_get error_data ''detail'' (JStr m) of
             Inl e \<Rightarrow> Inl e
           | Inr detail \<Rightarrow>
               Inr (JObj [(''error'',
                 JStr (''API Error: '' @ (case detail of JStr d \<Rightarrow> d | v \<Rightarrow> str_json lib v)))])))"

text \<open>
  The \<open>try\<close> block of \<open>get_city_data\<close> with its three \<open>except\<close> clauses, for the URL
  built from the city and the endpoint. A body that does not decode makes
  \<open>response.json()\<close> raise \<open>requests.exceptions.JSONDecodeError\<close>, a
  \<open>RequestException\<close> without a response (requests 2.27 and later).
\<close>

definition try_get :: "library \<Rightarrow> network \<Rightarrow> string \<Rightarrow> exn + json" where
  "try_get lib net url =
     (case net url of
        Inl (ConnectionError m) \<Rightarrow>
          Inr (JObj [(''error'', JStr (''Connection Error: Could not connect to the backend at ''
            @ API_BASE_URL @ ''. Please ensure the server is running.''))])
      | Inl (Timeout m) \<Rightarrow>
          Inr (JObj [(''error'', JStr (''The request to the backend timed out. ''
            @ ''The server might be busy or the request is complex.''))])
      | Inl (RequestException m resp) \<Rightarrow> on_request_exception lib m resp
      | Inr r \<Rightarrow>
          (case raise_for_status url r of
             Some m \<Rightarrow> on_request_exception lib m (Some r)
           | None \<Rightarrow>
               (case content r of
                  Undecodable m \<Rightarrow> on_request_exception lib m None
                | Decoded data \<Rightarrow> Inr data)))"


text \<open>
  \<open>get_city_data\<close> returns the URLs it has requested, in order, and either the dict it
  returns or the exception that leaves it.
\<close>

definition get_city_data :: "library \<Rightarrow> network \<Rightarrow> str \<Rightarrow> string \<Rightarrow> string list \<times> (exn + json)" where
  "get_city_data lib net city analysis_type =
     (case map_of endpoint_map analysis_type of
        None \<Rightarrow> ([], Inr (JObj [(''error'', JStr ''Invalid analysis type selected.'')]))
      | Some endpoint \<Rightarrow>
          (let url = API_BASE_URL @ ''/city/'' @ utf8 city @ ''/'' @ endpoint
           in ([url], try_get lib net url)))"

text \<open>The session fields; \<open>None\<close> is \<open>JNull\<close>.\<close>

record session =
  city :: str
  analysis_type :: string
  map_data :: json
  metrics :: json
  error :: json

definition initial_session :: session where
  "initial_session =
     \<lparr>city = [], analysis_type = ''Green Cover'', map_data = JNull, metrics = JNull, error = JNull\<rparr>"

text \<open>One run of the script is driven by the widgets: the text field, the submit button, the radio.\<close>

record widgets =
  city_input :: str
  submitted :: bool
  radio :: string

text \<open>\<open>"error" in data\<close>: key of a dict, element of a list, substring of a string.\<close>

fun starts_with :: "string \<Rightarrow> string \<Rightarrow> bool" where
  "starts_with s [] = True"
| "starts_with [] (p # ps) = False"
| "starts_with (c # cs) (p # ps) = (c = p \<and> starts_with cs ps)"

fun has_substring :: "string \<Rightarrow> string \<Rightarrow> bool" where
  "has_substring [] p = starts_with [] p"
| "has_substring (c # cs) p = (starts_with (c # cs) p \<or> has_substring cs p)"

fun contains :: "json \<Rightarrow> string \<Rightarrow> exn + bool" where
  "contains (JObj kvs) k = Inr (k \<in> fst ` set kvs)"
| "contains (JArr xs) k = Inr (JStr k \<in> set xs)"
| "contains (JStr s) k = Inr (has_substring s k)"
| "contains v k = Inl (Exception (''argument of type '' @ quoted (type_name v) @ '' is not iterable''))"

text \<open>
  The data fetching block (lines 82 to 96): the session after it, the URLs requested,
  and the exception that ends the script there, if any. The assignments made before an
  exception stay in the session.
\<close>

definition fetch :: "library \<Rightarrow> network \<Rightarrow> widgets \<Rightarrow> session \<Rightarrow> session \<times> string list \<times> exn option" where
  "fetch lib net w s =
     (if submitted w \<and> city_input w \<noteq> []
      then
        (let s1 = s\<lparr>city := city_input w, map_data := JNull, metrics := JNull, error := JNull\<rparr>;
             (urls, result) = get_city_data lib net (city s1) (analysis_type s1)
         in case result of
              Inl e \<Rightarrow> (s1, urls, Some e)
            | Inr data \<Rightarrow>
                (case contains data ''error'' of
                   Inl e \<Rightarrow> (s1, urls, Some e)
                 | Inr True \<Rightarrow>
                     (case getitem data ''error'' of
                        Inl e \<Rightarrow> (s1, urls, Some e)
                      | Inr v \<Rightarrow> (s1\<lparr>error := v\<rparr>, urls, None))
                 | Inr False \<Rightarrow>
                     (case dict_get data ''location'' JNull of
                        Inl e \<Rightarrow> (s1\<lparr>metrics := data\<rparr>, urls, Some e)
                      | Inr loc \<Rightarrow> (s1\<lparr>metrics := data, map_data := loc\<rparr>, urls, None))))
      else (s, [], None))"

text \<open>
  What a run puts on the page. The characters outside ASCII in the source's literals
  (pictographs, the degree sign) are left out.
\<close>

datatype element =
    Header string
  | Markdown string
  | Warning string
  | Error json
  | Subheader string
  | Metric string string
  | Info string
  | Map json json string

text \<open>\<open>f"{v:.nf}"\<close> of a value read from the metrics.\<close>

fun format_value :: "library \<Rightarrow> nat \<Rightarrow> json \<Rightarrow> exn + string" where
  "format_value lib n (JInt i) = Inr (format_f lib n (of_int i))"
| "format_value lib n (JFloat x) = Inr (format_f lib n x)"
| "format_value lib n (JBool b) = Inr (format_f lib n (if b then 1 else 0))"
| "format_value lib n (JStr s) =
     Inl (Exception (''Unknown format code '' @ quoted ''f'' @ '' for object of type '' @ quoted ''str''))"
| "format_value lib n v =
     Inl (Exception (''unsupported format string passed to '' @ type_name v @ ''.__format__''))"

definition metric :: "library \<Rightarrow> json \<Rightarrow> string \<Rightarrow> string \<Rightarrow> nat \<Rightarrow> string \<Rightarrow> exn + element" where
  "metric lib m label key n unit =
     (case dict_get m key (JInt 0) of
        Inl e \<Rightarrow> Inl e
      | Inr v \<Rightarrow>
          (case format_value lib n v of
             Inl e \<Rightarrow> Inl e
           | Inr t \<Rightarrow> Inr (Metric label (t @ unit))))"

text \<open>The metrics column (lines 121 to 140).\<close>

definition metrics_column :: "library \<Rightarrow> session \<Rightarrow> element list \<times> exn option" where
  "metrics_column lib s =
     (if truthy (metrics s)
      then
        (if analysis_type s = ''Green Cover''
         then (case metric lib (metrics s) ''Average Green Cover'' ''green_cover_percentage'' 2 ''%'' of
                 Inl e \<Rightarrow> ([Subheader ''Metrics''], Some e)
               | Inr m1 \<Rightarrow>
                   (case metric lib (metrics s) ''Average NDVI'' ''avg_ndvi'' 4 [] of
                      Inl e \<Rightarrow> ([Subheader ''Metrics'', m1], Some e)
                    | Inr m2 \<Rightarrow> ([Subheader ''Metrics'', m1, m2], None)))
         else if analysis_type s = ''Heat Map''
         then (case metric lib (metrics s) ''Average Surface Temp.'' ''avg_lst_celsius'' 2 '' C'' of
                 Inl e \<Rightarrow> ([Subheader ''Metrics''], Some e)
               | Inr m1 \<Rightarrow> ([Subheader ''Metrics'', m1], None))
         else ([Subheader ''Metrics''], None))
      else ([Subheader ''Metrics'', Info ''Search for a city to see its metrics.''], None))"

text \<open>The map column (lines 142 to 160).\<close>

definition map_column :: "library \<Rightarrow> session \<Rightarrow> element list \<times> exn option" where
  "map_column lib s =
     (if truthy (map_data s)
      then
        (case getitem (map_data s) ''lat'' of
           Inl e \<Rightarrow> ([Subheader ''City Location''], Some e)
         | Inr lat \<Rightarrow>
             (case getitem (map_data s) ''lon'' of
                Inl e \<Rightarrow> ([Subheader ''City Location''], Some e)
              | Inr lon \<Rightarrow>
                  (if folium_accepts lib lat lon
                   then ([Subheader ''City Location'', Map lat lon (utf8 (title (ucd lib) (city s)))], None)
                   else ([Subheader ''City Location''],
                         Some (Exception ''Location should consist of two numerical values'')))))
      else ([Subheader ''City Location'',
             Info ''Map will be displayed here once data is loaded.''], None))"

datatype outcome = Completed | Stopped | Crashed exn

text \<open>The main page (lines 101 to 160): the elements shown and how the script ends.\<close>

definition render :: "library \<Rightarrow> session \<Rightarrow> element list \<times> outcome" where
  "render lib s =
     (if analysis_type s \<noteq> ''Green Cover'' \<and> analysis_type s \<noteq> ''Heat Map''
      then ([Header (analysis_type s),
             Warning ''This feature is under construction. Please check back later!''], Stopped)
      else
        (let title_block =
               (if analysis_type s = ''Green Cover''
                then [Header ''Urban Green Cover'',
                      Markdown (''Analyzing Normalized Difference Vegetation Index (NDVI) to assess ''
                        @ ''vegetation health and coverage using Sentinel-2 satellite imagery.'')]
                else [Header ''Urban Heat Map'',
                      Markdown (''Analyzing Land Surface Temperature (LST) to identify heat islands ''
                        @ ''using thermal bands from Landsat 8 satellite.'')]);
             banner = (if truthy (error s) then [Error (error s)] else []);
             (col1, crash1) = metrics_column lib s
         in case crash1 of
              Some e \<Rightarrow> (title_block @ banner @ col1, Crashed e)
            | None \<Rightarrow>
                (let (col2, crash2) = map_column lib s
                 in (title_block @ banner @ col1 @ col2,
                     (case crash2 of Some e \<Rightarrow> Crashed e | None \<Rightarrow> Completed)))))"

text \<open>
  One run of the script on a session: the radio sets \<open>analysis_type\<close> (line 75), the
  fetching block runs, then the page is rendered unless the fetching block has raised.
\<close>

record run =
  after :: session
  requested :: "string list"
  page :: "element list"
  ending :: outcome

definition script :: "library \<Rightarrow> network \<Rightarrow> widgets \<Rightarrow> session \<Rightarrow> run" where
  "script lib net w s =
     (let (s1, urls, crash) = fetch lib net w (s\<lparr>analysis_type := radio w\<rparr>)
      in case crash of
           Some e \<Rightarrow> \<lparr>after = s1, requested = urls, page = [], ending = Crashed e\<rparr>
         | None \<Rightarrow>
             (let (elements, how) = render lib s1
              in \<lparr>after = s1, requested = urls, page = elements, ending = how\<rparr>))"

section \<open>Example environments\<close>

text \<open>
  An ASCII literal as text, and an excerpt of the Unicode character database: its
  entries for ASCII and for the two sharp s, U+00DF (small, whose title-case form is
  \<open>Ss\<close>) and U+1E9E (capital, whose lower-case form is U+00DF and whose title-case form
  is itself). No other code point is used with it.
\<close>

definition text_of :: "string \<Rightarrow> str" where
  "text_of s = map of_char s"

definition ucd_excerpt :: unicode where
  "ucd_excerpt =
     \<lparr>cased = (\<lambda>c. ascii_letter c \<or> c = 0xDF \<or> c = 0x1E9E),
      case_ignorable = (\<lambda>c. c = 0x27 \<or> c = 0x2E \<or> c = 0x3A \<or> c = 0x5E \<or> c = 0x60),
      to_lower = (\<lambda>c. if c = 0x1E9E then [0xDF] else [ascii_lower c]),
      to_title = (\<lambda>c. if c = 0xDF then [0x53, 0x73] else [ascii_upper c])\<rparr>"

text \<open>
  A configured server, a geocoder that resolves every name to one entry, and a service
  holding a one-pixel scene per band.
\<close>

definition paris_cfg :: config where
  "paris_cfg = \<lparr>OPENWEATHER_API_KEY = Some ''key'', GOOGLE_CLOUD_PROJECT = Some ''project''\<rparr>"

definition paris_response :: response where
  "paris_response =
     \<lparr>status_code = 200, reason = ''OK'',
      content = Decoded (JArr [JObj [(''name'', JStr ''Paris''),
                                     (''lat'', JFloat 48.8566), (''lon'', JFloat 2.3522)]])\<rparr>"

definition paris_net :: network where
  "paris_net url = Inr paris_response"

definition pixel_ndvi :: "json \<Rightarrow> json \<Rightarrow> string + image" where
  "pixel_ndvi lon lat = Inr [(1, 0.35)]"

definition pixel_st_b10 :: "json \<Rightarrow> json \<Rightarrow> string + image" where
  "pixel_st_b10 lon lat = Inr [(1, 44000)]"

definition paris_ee :: earth_engine where
  "paris_ee = \<lparr>initialized = True, ndvi_pixels = pixel_ndvi, st_b10_pixels = pixel_st_b10\<rparr>"

text \<open>A server without the geocoding key, and one without the project identifier.\<close>

definition no_key_cfg :: config where
  "no_key_cfg = \<lparr>OPENWEATHER_API_KEY = None, GOOGLE_CLOUD_PROJECT = Some ''project''\<rparr>"

definition no_project_cfg :: config where
  "no_project_cfg = \<lparr>OPENWEATHER_API_KEY = Some ''key'', GOOGLE_CLOUD_PROJECT = None\<rparr>"

definition initialize_ok :: "string \<Rightarrow> string option" where
  "initialize_ok project = None"

text \<open>A geocoder that finds nothing.\<close>

definition empty_response :: response where
  "empty_response = \<lparr>status_code = 200, reason = ''OK'', content = Decoded (JArr [])\<rparr>"

definition empty_net :: network where
  "empty_net url = Inr empty_response"

text \<open>
  A client whose libraries print every number as \<open>0.00\<close> and accept every location; a
  backend that refuses the connection, and one that answers status 300 with a JSON
  object; three submissions, and a session that holds the result of an earlier
  successful submission.
\<close>

definition no_text :: "json \<Rightarrow> string" where
  "no_text v = []"

definition fixed_text :: "nat \<Rightarrow> real \<Rightarrow> string" where
  "fixed_text n x = ''0.00''"

definition any_location :: "json \<Rightarrow> json \<Rightarrow> bool" where
  "any_location lat lon = True"

definition plain_lib :: library where
  "plain_lib =
     \<lparr>ucd = ucd_excerpt, str_json = no_text, format_f = fixed_text,
      folium_accepts = any_location\<rparr>"

definition refusing_net :: network where
  "refusing_net url = Inl (ConnectionError ''Connection refused'')"




definition submit_flood :: widgets where
  "submit_flood = \<lparr>city_input = text_of ''Paris'', submitted = True, radio = ''Flood Risk''\<rparr>"

definition submit_empty :: widgets where
  "submit_empty = \<lparr>city_input = [], submitted = True, radio = ''Green Cover''\<rparr>"

definition paris_session :: session where
  "paris_session =
     \<lparr>city = text_of ''Paris'', analysis_type = ''Green Cover'',
      map_data = JObj [(''lat'', JFloat 48.8566), (''lon'', JFloat 2.3522)],
      metrics = JObj [(''city'', JStr ''Paris''),
                      (''location'', JObj [(''lat'', JFloat 48.8566), (''lon'', JFloat 2.3522)]),
                      (''avg_ndvi'', JFloat 0.35),
                      (''green_cover_percentage'', JFloat 67.5),
                      (''data_source'', JStr ''Copernicus Sentinel-2'')],
      error = JNull\<rparr>"

section \<open>Properties of the float model\<close>

lemma b64_zero: "b64 0 = 0"
  by (simp add: b64_def rne_def)

section \<open>Properties of the server and the helper module\<close>

lemma reraise_http: "\<exists>code detail. reraise e = HTTPException code detail"
  by (cases e) simp_all

lemma paris_coords:
  "get_city_coords paris_cfg paris_net c = Inr (JFloat 48.8566, JFloat 2.3522)"
  by (simp add: get_city_coords_def paris_cfg_def paris_net_def paris_response_def unset_def
      response_json_def coords_of_def)

lemma sum_linear:
  fixes a b c :: real and img :: image
  shows "(\<Sum>(w, v) \<leftarrow> img. w * (v * a + b - c))
           = a * (\<Sum>(w, v) \<leftarrow> img. w * v) + (b - c) * (\<Sum>(w, v) \<leftarrow> img. w)"
  by (induction img) (auto simp: algebra_simps)

lemma total_weight_lst: "total_weight (lst_celsius img) = total_weight img"
  by (induction img) (auto simp: total_weight_def lst_celsius_def subtract_def add_def multiply_def)

lemma lst_celsius_map:
  "lst_celsius img = map (\<lambda>(w, v). (w, v * 0.00341802 + 149.0 - 273.15)) img"
  by (induction img) (auto simp: lst_celsius_def subtract_def add_def multiply_def)

lemma mean_lst:
  assumes "reduce_mean img = Some v"
  shows "reduce_mean (lst_celsius img) = Some (v * 0.00341802 + 149.0 - 273.15)"
proof -
  from assms have tw: "total_weight img \<noteq> 0"
    and v: "v = (\<Sum>(w, v) \<leftarrow> img. w * v) / total_weight img"
    by (auto simp: reduce_mean_def split: if_splits)
  have "(\<Sum>(w, v) \<leftarrow> lst_celsius img. w * v)
          = (\<Sum>(w, v) \<leftarrow> img. w * (v * 0.00341802 + 149.0 - 273.15))"
    by (simp add: lst_celsius_map comp_def case_prod_unfold)
  also have "\<dots> = 0.00341802 * (\<Sum>(w, v) \<leftarrow> img. w * v) + (149.0 - 273.15) * total_weight img"
    unfolding total_weight_def by (rule sum_linear)
  finally have "(\<Sum>(w, v) \<leftarrow> lst_celsius img. w * v) / total_weight img
                  = v * 0.00341802 + 149.0 - 273.15"
    using tw by (simp add: v field_simps)
  then show ?thesis using tw by (simp add: reduce_mean_def total_weight_lst)
qed

text \<open>
  Claim C2. The service's arithmetic is over the reals. Each raw pixel value \<open>v\<close> of the
  thermal band becomes \<open>v * 0.00341802 + 149.0 - 273.15\<close>, and when the raw band reduces
  to the mean \<open>v\<close> over the region, the endpoint reports exactly
  \<open>avg_lst_celsius = v * 0.00341802 + 149.0 - 273.15\<close>: the reported value is a function
  of \<open>v\<close> alone.
\<close>

theorem avg_lst_celsius_transform:
  assumes "get_city_coords cfg net c = Inr (lat, lon)"
    and "ee_scene ee (st_b10_pixels ee) lon lat = Inr st_b10"
    and "reduce_mean st_b10 = Some v"
  shows "lst_celsius st_b10 = map (\<lambda>(w, x). (w, x * 0.00341802 + 149.0 - 273.15)) st_b10
    \<and> get_heat_map u cfg net ee c =
        Inr (JObj [(''city'', JStr (utf8 (title u c))),
                   (''location'', JObj [(''lat'', lat), (''lon'', lon)]),
                   (''avg_lst_celsius'', JFloat (v * 0.00341802 + 149.0 - 273.15)),
                   (''data_source'', JStr ''USGS Landsat 8'')])"
  using assms mean_lst [OF assms(3)] by (simp add: get_heat_map_def lst_celsius_map)

theorem avg_lst_celsius_transform_witness:
  "get_city_coords paris_cfg paris_net (text_of ''Paris'') = Inr (JFloat 48.8566, JFloat 2.3522)
   \<and> ee_scene paris_ee (st_b10_pixels paris_ee) (JFloat 2.3522) (JFloat 48.8566) = Inr [(1, 44000)]
   \<and> reduce_mean [(1, 44000)] = Some 44000
   \<and> get_heat_map ucd_excerpt paris_cfg paris_net paris_ee (text_of ''Paris'') =
        Inr (JObj [(''city'', JStr (utf8 (title ucd_excerpt (text_of ''Paris'')))),
                   (''location'', JObj [(''lat'', JFloat 48.8566), (''lon'', JFloat 2.3522)]),
                   (''avg_lst_celsius'', JFloat (44000 * 0.00341802 + 149.0 - 273.15)),
                   (''data_source'', JStr ''USGS Landsat 8'')])"
proof -
  have 1: "get_city_coords paris_cfg paris_net (text_of ''Paris'')
             = Inr (JFloat 48.8566, JFloat 2.3522)"
    by (rule paris_coords)
  have 2: "ee_scene paris_ee (st_b10_pixels paris_ee) (JFloat 2.3522) (JFloat 48.8566)
             = Inr [(1, 44000)]"
    by (simp add: ee_scene_def paris_ee_def pixel_st_b10_def)
  have 3: "reduce_mean [(1, 44000)] = Some 44000"
    by (simp add: reduce_mean_def total_weight_def)
  show ?thesis
    using 1 2 3 avg_lst_celsius_transform [OF 1 2 3, where u = ucd_excerpt] by simp
qed

lemma paris_green:
  "get_green_cover u paris_cfg paris_net paris_ee c =
     Inr (JObj [(''city'', JStr (utf8 (title u c))),
                (''location'', JObj [(''lat'', JFloat 48.8566), (''lon'', JFloat 2.3522)]),
                (''avg_ndvi'', JFloat 0.35),
                (''green_cover_percentage'', JFloat (green_cover_percentage 0.35)),
                (''data_source'', JStr ''Copernicus Sentinel-2'')])"
  by (simp add: get_green_cover_def paris_coords ee_scene_def paris_ee_def pixel_ndvi_def
      reduce_mean_def total_weight_def)

lemma paris_heat:
  "get_heat_map u paris_cfg paris_net paris_ee c =
     Inr (JObj [(''city'', JStr (utf8 (title u c))),
                (''location'', JObj [(''lat'', JFloat 48.8566), (''lon'', JFloat 2.3522)]),
                (''avg_lst_celsius'', JFloat (44000 * 0.00341802 + 149.0 - 273.15)),
                (''data_source'', JStr ''USGS Landsat 8'')])"
proof -
  have "reduce_mean [(1, 44000)] = Some 44000"
    by (simp add: reduce_mean_def total_weight_def)
  then have "reduce_mean (lst_celsius [(1, 44000)]) = Some (44000 * 0.00341802 + 149.0 - 273.15)"
    by (rule mean_lst)
  then show ?thesis
    by (simp add: get_heat_map_def paris_coords ee_scene_def paris_ee_def pixel_st_b10_def)
qed

lemma green_success:
  "get_city_coords cfg net c = Inr (lat, lon) \<Longrightarrow>
   ee_scene ee (ndvi_pixels ee) lon lat = Inr img \<Longrightarrow>
   reduce_mean img = Some avg \<Longrightarrow>
   get_green_cover u cfg net ee c =
     Inr (JObj [(''city'', JStr (utf8 (title u c))),
                (''location'', JObj [(''lat'', lat), (''lon'', lon)]),
                (''avg_ndvi'', JFloat avg),
                (''green_cover_percentage'', JFloat (green_cover_percentage avg)),
                (''data_source'', JStr ''Copernicus Sentinel-2'')])"
  by (simp add: get_green_cover_def)

lemma heat_success:
  "get_city_coords cfg net c = Inr (lat, lon) \<Longrightarrow>
   ee_scene ee (st_b10_pixels ee) lon lat = Inr img \<Longrightarrow>
   reduce_mean (lst_celsius img) = Some avg \<Longrightarrow>
   get_heat_map u cfg net ee c =
     Inr (JObj [(''city'', JStr (utf8 (title u c))),
                (''location'', JObj [(''lat'', lat), (''lon'', lon)]),
                (''avg_lst_celsius'', JFloat avg),
                (''data_source'', JStr ''USGS Landsat 8'')])"
  by (simp add: get_heat_map_def)

lemma green_complete_or_error:
  "(\<exists>lat lon img avg.
       get_city_coords cfg net c = Inr (lat, lon)
       \<and> ee_scene ee (ndvi_pixels ee) lon lat = Inr img
       \<and> reduce_mean img = Some avg
       \<and> get_green_cover u cfg net ee c =
           Inr (JObj [(''city'', JStr (utf8 (title u c))),
                      (''location'', JObj [(''lat'', lat), (''lon'', lon)]),
                      (''avg_ndvi'', JFloat avg),
                      (''green_cover_percentage'', JFloat (green_cover_percentage avg)),
                      (''data_source'', JStr ''Copernicus Sentinel-2'')]))
    \<or> (\<exists>code detail. get_green_cover u cfg net ee c = Inl (HTTPException code detail))"
  using reraise_http
  by (auto simp: get_green_cover_def split: sum.splits option.splits prod.splits)

lemma heat_complete_or_error:
  "(\<exists>lat lon img avg.
       get_city_coords cfg net c = Inr (lat, lon)
       \<and> ee_scene ee (st_b10_pixels ee) lon lat = Inr img
       \<and> reduce_mean (lst_celsius img) = Some avg
       \<and> get_heat_map u cfg net ee c =
           Inr (JObj [(''city'', JStr (utf8 (title u c))),
                      (''location'', JObj [(''lat'', lat), (''lon'', lon)]),
                      (''avg_lst_celsius'', JFloat avg),
                      (''data_source'', JStr ''USGS Landsat 8'')]))
    \<or> (\<exists>code detail. get_heat_map u cfg net ee c = Inl (HTTPException code detail))"
  using reraise_http
  by (auto simp: get_heat_map_def split: sum.splits option.splits prod.splits)

text \<open>
  Claim C3. For each endpoint: when \<open>get_city_coords\<close> returns a pair, the service
  returns the scene and the mean over the region exists, the endpoint returns the
  complete result (\<open>city\<close>, the \<open>location\<close> holding exactly that pair, the metric fields
  of its kind and \<open>data_source\<close>). And in every case the endpoint either returns the
  complete result, and then geocoding and the remote statistic have both succeeded, or
  it raises an \<open>HTTPException\<close> and returns no result at all.
\<close>

theorem result_complete_or_error:
  "(get_city_coords cfg net c = Inr (lat, lon)
      \<and> ee_scene ee (ndvi_pixels ee) lon lat = Inr ndvi
      \<and> reduce_mean ndvi = Some avg_ndvi \<longrightarrow>
    get_green_cover u cfg net ee c =
      Inr (JObj [(''city'', JStr (utf8 (title u c))),
                 (''location'', JObj [(''lat'', lat), (''lon'', lon)]),
                 (''avg_ndvi'', JFloat avg_ndvi),
                 (''green_cover_percentage'', JFloat (green_cover_percentage avg_ndvi)),
                 (''data_source'', JStr ''Copernicus Sentinel-2'')]))
   \<and>
   (get_city_coords cfg net c = Inr (lat, lon)
      \<and> ee_scene ee (st_b10_pixels ee) lon lat = Inr raw
      \<and> reduce_mean (lst_celsius raw) = Some avg_lst \<longrightarrow>
    get_heat_map u cfg net ee c =
      Inr (JObj [(''city'', JStr (utf8 (title u c))),
                 (''location'', JObj [(''lat'', lat), (''lon'', lon)]),
                 (''avg_lst_celsius'', JFloat avg_lst),
                 (''data_source'', JStr ''USGS Landsat 8'')]))
   \<and>
   ((\<exists>lat lon img avg.
       get_city_coords cfg net c = Inr (lat, lon)
       \<and> ee_scene ee (ndvi_pixels ee) lon lat = Inr img
       \<and> reduce_mean img = Some avg
       \<and> get_green_cover u cfg net ee c =
           Inr (JObj [(''city'', JStr (utf8 (title u c))),
                      (''location'', JObj [(''lat'', lat), (''lon'', lon)]),
                      (''avg_ndvi'', JFloat avg),
                      (''green_cover_percentage'', JFloat (green_cover_percentage avg)),
                      (''data_source'', JStr ''Copernicus Sentinel-2'')]))
    \<or> (\<exists>code detail. get_green_cover u cfg net ee c = Inl (HTTPException code detail)))
   \<and>
   ((\<exists>lat lon img avg.
       get_city_coords cfg net c = Inr (lat, lon)
       \<and> ee_scene ee (st_b10_pixels ee) lon lat = Inr img
       \<and> reduce_mean (lst_celsius img) = Some avg
       \<and> get_heat_map u cfg net ee c =
           Inr (JObj [(''city'', JStr (utf8 (title u c))),
                      (''location'', JObj [(''lat'', lat), (''lon'', lon)]),
                      (''avg_lst_celsius'', JFloat avg),
                      (''data_source'', JStr ''USGS Landsat 8'')]))
    \<or> (\<exists>code detail. get_heat_map u cfg net ee c = Inl (HTTPException code detail)))"
  using green_success [of cfg net c lat lon ee ndvi avg_ndvi u]
    heat_success [of cfg net c lat lon ee raw avg_lst u]
    green_complete_or_error [of cfg net c ee u] heat_complete_or_error [of cfg net c ee u]
  by blast

theorem result_complete_or_error_witness:
  "get_city_coords paris_cfg paris_net (text_of ''Paris'') = Inr (JFloat 48.8566, JFloat 2.3522)
   \<and> ee_scene paris_ee (ndvi_pixels paris_ee) (JFloat 2.3522) (JFloat 48.8566) = Inr [(1, 0.35)]
   \<and> reduce_mean [(1, 0.35)] = Some 0.35
   \<and> get_green_cover ucd_excerpt paris_cfg paris_net paris_ee (text_of ''Paris'') =
       Inr (JObj [(''city'', JStr (utf8 (title ucd_excerpt (text_of ''Paris'')))),
                  (''location'', JObj [(''lat'', JFloat 48.8566), (''lon'', JFloat 2.3522)]),
                  (''avg_ndvi'', JFloat 0.35),
                  (''green_cover_percentage'', JFloat (green_cover_percentage 0.35)),
                  (''data_source'', JStr ''Copernicus Sentinel-2'')])
   \<and> ee_scene paris_ee (st_b10_pixels paris_ee) (JFloat 2.3522) (JFloat 48.8566) = Inr [(1, 44000)]
   \<and> reduce_mean (lst_celsius [(1, 44000)]) = Some (44000 * 0.00341802 + 149.0 - 273.15)
   \<and> get_heat_map ucd_excerpt paris_cfg paris_net paris_ee (text_of ''Paris'') =
       Inr (JObj [(''city'', JStr (utf8 (title ucd_excerpt (text_of ''Paris'')))),
                  (''location'', JObj [(''lat'', JFloat 48.8566), (''lon'', JFloat 2.3522)]),
                  (''avg_lst_celsius'', JFloat (44000 * 0.00341802 + 149.0 - 273.15)),
                  (''data_source'', JStr ''USGS Landsat 8'')])"
proof -
  have 1: "get_city_coords paris_cfg paris_net (text_of ''Paris'')
             = Inr (JFloat 48.8566, JFloat 2.3522)"
    by (rule paris_coords)
  have 2: "ee_scene paris_ee (ndvi_pixels paris_ee) (JFloat 2.3522) (JFloat 48.8566)
             = Inr [(1, 0.35)]"
    by (simp add: ee_scene_def paris_ee_def pixel_ndvi_def)
  have 3: "reduce_mean [(1, 0.35)] = Some 0.35"
    by (simp add: reduce_mean_def total_weight_def)
  have 4: "ee_scene paris_ee (st_b10_pixels paris_ee) (JFloat 2.3522) (JFloat 48.8566)
             = Inr [(1, 44000)]"
    by (simp add: ee_scene_def paris_ee_def pixel_st_b10_def)
  have "reduce_mean [(1, 44000)] = Some 44000"
    by (simp add: reduce_mean_def total_weight_def)
  then have 5: "reduce_mean (lst_celsius [(1, 44000)])
                  = Some (44000 * 0.00341802 + 149.0 - 273.15)"
    by (rule mean_lst)
  show ?thesis
    using 1 2 3 4 5
      result_complete_or_error
        [where cfg = paris_cfg and net = paris_net and c = "text_of ''Paris''"
           and lat = "JFloat 48.8566" and lon = "JFloat 2.3522" and ee = paris_ee
           and ndvi = "[(1, 0.35)]" and avg_ndvi = "0.35" and u = ucd_excerpt
           and raw = "[(1, 44000)]" and avg_lst = "44000 * 0.00341802 + 149.0 - 273.15"]
    by simp
qed

text \<open>
  Claim C8. The helper's transform of a raw value (division by 10) and the endpoint's
  transform (times 0.00341802, plus 149.0, minus 273.15) are not the same function:
  there is a raw value \<open>v\<close>, the single pixel of a scene, for which the endpoint
  reports \<open>x\<close> and the helper returns an \<open>avg_temp\<close> other than \<open>x\<close>.
\<close>

theorem heatmap_transforms_inconsistent:
  "\<exists>v x. reduce_mean (lst_celsius [(1, v)]) = Some x
     \<and> x = v * 0.00341802 + 149.0 - 273.15
     \<and> get_heatmap v \<noteq> JObj [(''avg_temp'', JFloat x)]"
proof -
  have "reduce_mean (lst_celsius [(1, 0)]) = Some (0 * 0.00341802 + 149.0 - 273.15)"
    by (simp add: reduce_mean_def total_weight_def lst_celsius_def subtract_def add_def
        multiply_def)
  moreover have "get_heatmap 0 \<noteq> JObj [(''avg_temp'', JFloat (0 * 0.00341802 + 149.0 - 273.15))]"
    by (simp add: get_heatmap_def fdiv_def b64_zero)
  ultimately show ?thesis by blast
qed

subsection \<open>Title case\<close>

lemma lower_ucs4_ascii:
  "ascii_casing u \<Longrightarrow> c < 128 \<Longrightarrow> lower_ucs4 u before c rest = [ascii_lower c]"
  by (simp add: lower_ucs4_def ascii_casing_def)

lemma lower_from_ascii:
  "ascii_casing u \<Longrightarrow> is_ascii s \<Longrightarrow> lower_from u before s = map ascii_lower s"
  by (induction s arbitrary: before) (simp_all add: is_ascii_def lower_ucs4_ascii)

lemma ascii_lower_eq:
  "ascii_lower c = ascii_lower d \<Longrightarrow>
   ascii_letter c = ascii_letter d \<and> ascii_upper c = ascii_upper d"
  by (auto simp: ascii_lower_def ascii_letter_def ascii_upper_def split: if_splits)

lemma title_from_case:
  assumes "ascii_casing u"
  shows "is_ascii s \<Longrightarrow> is_ascii t \<Longrightarrow> map ascii_lower s = map ascii_lower t \<Longrightarrow>
         title_from u before p s = title_from u before' p t"
proof (induction s arbitrary: t before before' p)
  case Nil
  then show ?case by simp
next
  case (Cons c cs)
  then obtain d ds where t: "t = d # ds" by (cases t) auto
  from Cons.prems t have c: "c < 128" and d: "d < 128"
    and cs: "is_ascii cs" and ds: "is_ascii ds"
    and h: "ascii_lower c = ascii_lower d" and tl: "map ascii_lower cs = map ascii_lower ds"
    by (auto simp: is_ascii_def)
  from assms c d have cased: "cased u c = ascii_letter c" "cased u d = ascii_letter d"
    and to_title: "to_title u c = [ascii_upper c]" "to_title u d = [ascii_upper d]"
    by (simp_all add: ascii_casing_def)
  have "title_from u (before @ [c]) (ascii_letter c) cs
          = title_from u (before' @ [d]) (ascii_letter c) ds"
    by (rule Cons.IH [OF cs ds tl])
  then show ?case
    using h ascii_lower_eq [OF h] cased to_title
      lower_ucs4_ascii [OF assms c] lower_ucs4_ascii [OF assms d]
    by (simp add: t)
qed

lemma title_from_ascii:
  assumes "ascii_casing u"
  shows "is_ascii s \<Longrightarrow>
    length (title_from u before p s) = length s
    \<and> (\<forall>i < length s. title_from u before p s ! i =
          (if (if i = 0 then p else ascii_letter (s ! (i - 1)))
           then ascii_lower (s ! i) else ascii_upper (s ! i)))"
proof (induction s arbitrary: before p)
  case Nil
  then show ?case by simp
next
  case (Cons c cs)
  then have c: "c < 128" and cs: "is_ascii cs" by (auto simp: is_ascii_def)
  from assms c have cased: "cased u c = ascii_letter c"
    and to_title: "to_title u c = [ascii_upper c]"
    by (simp_all add: ascii_casing_def)
  have step: "title_from u before p (c # cs) =
      (if p then ascii_lower c else ascii_upper c)
      # title_from u (before @ [c]) (ascii_letter c) cs"
    using cased to_title lower_ucs4_ascii [OF assms c] by simp
  note IH = Cons.IH [OF cs, of "before @ [c]" "ascii_letter c"]
  show ?case
  proof (intro conjI allI impI)
    show "length (title_from u before p (c # cs)) = length (c # cs)"
      using IH by (simp only: step) simp
  next
    fix i assume i: "i < length (c # cs)"
    show "title_from u before p (c # cs) ! i =
          (if (if i = 0 then p else ascii_letter ((c # cs) ! (i - 1)))
           then ascii_lower ((c # cs) ! i) else ascii_upper ((c # cs) ! i))"
    proof (cases i)
      case 0
      then show ?thesis by (simp only: step) simp
    next
      case (Suc j)
      with i have j: "j < length cs" by simp
      from IH j have "title_from u (before @ [c]) (ascii_letter c) cs ! j =
          (if (if j = 0 then ascii_letter c else ascii_letter (cs ! (j - 1)))
           then ascii_lower (cs ! j) else ascii_upper (cs ! j))"
        by blast
      then show ?thesis
        unfolding step Suc by (cases j) simp_all
    qed
  qed
qed

lemma utf8_ascii:
  "\<forall>ch \<in> set s. (of_char ch :: nat) < 128 \<Longrightarrow> utf8 (text_of s) = s"
  by (induction s) (simp_all add: utf8_def utf8_char_def text_of_def)

lemma green_city:
  "get_green_cover u cfg net ee c = Inr r \<Longrightarrow>
   getitem r ''city'' = Inr (JStr (utf8 (title u c)))"
  by (auto simp: get_green_cover_def split: sum.splits option.splits prod.splits)

lemma heat_city:
  "get_heat_map u cfg net ee c = Inr r \<Longrightarrow>
   getitem r ''city'' = Inr (JStr (utf8 (title u c)))"
  by (auto simp: get_heat_map_def split: sum.splits option.splits prod.splits)

lemma ascii_casing_excerpt: "ascii_casing ucd_excerpt"
  by (auto simp: ascii_casing_def ucd_excerpt_def ascii_letter_def ascii_lower_def
      ascii_upper_def)

lemma ascii_examples:
  "is_ascii (text_of ''pARIS'') \<and> is_ascii (text_of ''Paris'')"
  by (simp add: is_ascii_def text_of_def)

lemmas excerpt_simps =
  text_of_def title_def lower_def lower_ucs4_def ucd_excerpt_def
  ascii_letter_def ascii_lower_def ascii_upper_def

lemma lower_example:
  "lower ucd_excerpt (text_of ''pARIS'') = lower ucd_excerpt (text_of ''Paris'')"
  by (simp add: excerpt_simps)

text \<open>
  Claim C9, amended. In every successful response of either endpoint the \<open>city\<close> field
  is \<open>city.title()\<close> of the path parameter, in UTF-8. For ASCII text, with the casing the
  Unicode character database gives ASCII, title-casing keeps the length, lowers each
  letter that follows a letter and raises every other letter; so two ASCII inputs with
  the same \<open>lower()\<close>, which is to differ only in letter case, have the same \<open>city\<close>
  field.
\<close>

theorem city_field_is_title_cased:
  "(get_green_cover u cfg net ee c = Inr r \<longrightarrow>
      getitem r ''city'' = Inr (JStr (utf8 (title u c))))
   \<and> (get_heat_map u cfg net ee c = Inr r' \<longrightarrow>
      getitem r' ''city'' = Inr (JStr (utf8 (title u c))))
   \<and> (ascii_casing u \<and> is_ascii s \<longrightarrow>
      length (title u s) = length s
      \<and> (\<forall>i < length s. title u s ! i =
            (if 0 < i \<and> ascii_letter (s ! (i - 1))
             then ascii_lower (s ! i) else ascii_upper (s ! i))))
   \<and> (ascii_casing u \<and> is_ascii s \<and> is_ascii t \<and> lower u s = lower u t \<longrightarrow>
      title u s = title u t)"
proof (intro conjI impI)
  assume "get_green_cover u cfg net ee c = Inr r"
  then show "getitem r ''city'' = Inr (JStr (utf8 (title u c)))" by (rule green_city)
next
  assume "get_heat_map u cfg net ee c = Inr r'"
  then show "getitem r' ''city'' = Inr (JStr (utf8 (title u c)))" by (rule heat_city)
next
  assume "ascii_casing u \<and> is_ascii s"
  then show "length (title u s) = length s"
    using title_from_ascii [of u s "[]" False] by (simp add: title_def)
next
  assume a: "ascii_casing u \<and> is_ascii s"
  show "\<forall>i < length s. title u s ! i =
            (if 0 < i \<and> ascii_letter (s ! (i - 1))
             then ascii_lower (s ! i) else ascii_upper (s ! i))"
  proof (intro allI impI)
    fix i assume "i < length s"
    then show "title u s ! i =
            (if 0 < i \<and> ascii_letter (s ! (i - 1))
             then ascii_lower (s ! i) else ascii_upper (s ! i))"
      using a title_from_ascii [of u s "[]" False] by (cases "i = 0") (simp_all add: title_def)
  qed
next
  assume a: "ascii_casing u \<and> is_ascii s \<and> is_ascii t \<and> lower u s = lower u t"
  then have "map ascii_lower s = map ascii_lower t"
    using lower_from_ascii [of u s "[]"] lower_from_ascii [of u t "[]"]
    by (simp add: lower_def)
  with a show "title u s = title u t"
    unfolding title_def by (simp add: title_from_case)
qed

theorem city_field_is_title_cased_witness:
  "ascii_casing ucd_excerpt
   \<and> is_ascii (text_of ''pARIS'') \<and> is_ascii (text_of ''Paris'')
   \<and> lower ucd_excerpt (text_of ''pARIS'') = lower ucd_excerpt (text_of ''Paris'')
   \<and> (\<exists>r. get_green_cover ucd_excerpt paris_cfg paris_net paris_ee (text_of ''pARIS'') = Inr r
         \<and> getitem r ''city'' = Inr (JStr (utf8 (title ucd_excerpt (text_of ''pARIS'')))))
   \<and> (\<exists>r'. get_heat_map ucd_excerpt paris_cfg paris_net paris_ee (text_of ''pARIS'') = Inr r'
         \<and> getitem r' ''city'' = Inr (JStr (utf8 (title ucd_excerpt (text_of ''pARIS'')))))
   \<and> title ucd_excerpt (text_of ''pARIS'') = title ucd_excerpt (text_of ''Paris'')
   \<and> utf8 (title ucd_excerpt (text_of ''pARIS'')) = ''Paris''"
proof -
  obtain r where g: "get_green_cover ucd_excerpt paris_cfg paris_net paris_ee (text_of ''pARIS'') = Inr r"
    using paris_green by blast
  obtain r' where h: "get_heat_map ucd_excerpt paris_cfg paris_net paris_ee (text_of ''pARIS'') = Inr r'"
    using paris_heat by blast
  have e: "utf8 (title ucd_excerpt (text_of ''pARIS'')) = ''Paris''"
    by (simp add: excerpt_simps utf8_def utf8_char_def char_of_def bit_0)
  show ?thesis
    using g h e ascii_casing_excerpt ascii_examples lower_example
      city_field_is_title_cased
        [where u = ucd_excerpt and cfg = paris_cfg and net = paris_net and ee = paris_ee
           and c = "text_of ''pARIS''" and r = r and r' = r'
           and s = "text_of ''pARIS''" and t = "text_of ''Paris''"]
    by simp
qed

text \<open>
  The claim as stated fails outside ASCII. \<open>U+1E9E x\<close> and \<open>U+00DF x\<close>, the capital and
  the small sharp s followed by \<open>x\<close>, differ only in letter case: \<open>lower()\<close> gives
  \<open>U+00DF x\<close> for both. Their \<open>city\<close> fields differ: \<open>U+1E9E x\<close> for the first, \<open>Ssx\<close>
  for the second.
\<close>

theorem case_variants_with_different_city_field:
  "lower ucd_excerpt [0x1E9E, 0x78] = lower ucd_excerpt [0xDF, 0x78]
   \<and> get_green_cover ucd_excerpt paris_cfg paris_net paris_ee [0x1E9E, 0x78] =
       Inr (JObj [(''city'', JStr (utf8 [0x1E9E, 0x78])),
                  (''location'', JObj [(''lat'', JFloat 48.8566), (''lon'', JFloat 2.3522)]),
                  (''avg_ndvi'', JFloat 0.35),
                  (''green_cover_percentage'', JFloat (green_cover_percentage 0.35)),
                  (''data_source'', JStr ''Copernicus Sentinel-2'')])
   \<and> get_green_cover ucd_excerpt paris_cfg paris_net paris_ee [0xDF, 0x78] =
       Inr (JObj [(''city'', JStr ''Ssx''),
                  (''location'', JObj [(''lat'', JFloat 48.8566), (''lon'', JFloat 2.3522)]),
                  (''avg_ndvi'', JFloat 0.35),
                  (''green_cover_percentage'', JFloat (green_cover_percentage 0.35)),
                  (''data_source'', JStr ''Copernicus Sentinel-2'')])
   \<and> utf8 [0x1E9E, 0x78] \<noteq> ''Ssx''"
proof -
  have 1: "lower ucd_excerpt [0x1E9E, 0x78] = lower ucd_excerpt [0xDF, 0x78]"
    by (simp add: excerpt_simps)
  have 2: "title ucd_excerpt [0x1E9E, 0x78] = [0x1E9E, 0x78]"
    by (simp add: excerpt_simps)
  have 3: "utf8 (title ucd_excerpt [0xDF, 0x78]) = ''Ssx''"
    by (simp add: excerpt_simps utf8_def utf8_char_def char_of_def bit_0)
  have 4: "utf8 [0x1E9E, 0x78] \<noteq> ''Ssx''"
    by (simp add: utf8_def utf8_char_def char_of_def)
  show ?thesis
    using 1 4 by (simp only: paris_green 2 3) simp
qed

subsection \<open>Unknown cities and missing configuration\<close>

text \<open>
  Claim C4. When the geocoder answers the request for a city name with status 200 and
  an empty result set, both endpoints raise a 404 whose detail names the city, and so
  never return a result. This holds for every name, the empty one included. (The
  geocoder is asked only when the geocoding key is configured.)
\<close>

theorem unresolved_city_not_found:
  assumes "\<not> unset (OPENWEATHER_API_KEY cfg)"
    and "net (geo_url (utf8 c) (the (OPENWEATHER_API_KEY cfg))) = Inr r"
    and "status_code r = 200"
    and "content r = Decoded (JArr [])"
  shows "get_green_cover u cfg net ee c
           = Inl (HTTPException 404 (''City '' @ quoted (utf8 c) @ '' not found.''))
       \<and> get_heat_map u cfg net ee c
           = Inl (HTTPException 404 (''City '' @ quoted (utf8 c) @ '' not found.''))"
  using assms
  by (simp add: get_green_cover_def get_heat_map_def get_city_coords_def response_json_def)

theorem unresolved_city_not_found_witness:
  "\<not> unset (OPENWEATHER_API_KEY paris_cfg)
   \<and> empty_net (geo_url (utf8 (text_of ''Atlantis'')) (the (OPENWEATHER_API_KEY paris_cfg)))
       = Inr empty_response
   \<and> empty_net (geo_url (utf8 []) (the (OPENWEATHER_API_KEY paris_cfg))) = Inr empty_response
   \<and> status_code empty_response = 200
   \<and> content empty_response = Decoded (JArr [])
   \<and> get_green_cover ucd_excerpt paris_cfg empty_net paris_ee (text_of ''Atlantis'')
       = Inl (HTTPException 404 (''City '' @ quoted ''Atlantis'' @ '' not found.''))
   \<and> get_heat_map ucd_excerpt paris_cfg empty_net paris_ee (text_of ''Atlantis'')
       = Inl (HTTPException 404 (''City '' @ quoted ''Atlantis'' @ '' not found.''))
   \<and> get_green_cover ucd_excerpt paris_cfg empty_net paris_ee []
       = Inl (HTTPException 404 (''City '' @ quoted [] @ '' not found.''))
   \<and> get_heat_map ucd_excerpt paris_cfg empty_net paris_ee []
       = Inl (HTTPException 404 (''City '' @ quoted [] @ '' not found.''))"
proof -
  have 1: "\<not> unset (OPENWEATHER_API_KEY paris_cfg)"
    by (simp add: paris_cfg_def unset_def)
  have 2: "empty_net (geo_url (utf8 (text_of ''Atlantis'')) (the (OPENWEATHER_API_KEY paris_cfg)))
             = Inr empty_response"
    by (simp add: empty_net_def)
  have 3: "empty_net (geo_url (utf8 []) (the (OPENWEATHER_API_KEY paris_cfg))) = Inr empty_response"
    by (simp add: empty_net_def)
  have 4: "status_code empty_response = 200"
    by (simp add: empty_response_def)
  have 5: "content empty_response = Decoded (JArr [])"
    by (simp add: empty_response_def)
  have 6: "utf8 (text_of ''Atlantis'') = ''Atlantis''"
    by (simp add: utf8_ascii)
  have 7: "utf8 [] = []"
    by (simp add: utf8_def)
  show ?thesis
    using 1 2 3 4 5
      unresolved_city_not_found
        [where cfg = paris_cfg and net = empty_net and c = "text_of ''Atlantis''"
           and r = empty_response and ee = paris_ee and u = ucd_excerpt]
      unresolved_city_not_found
        [where cfg = paris_cfg and net = empty_net and c = "[]"
           and r = empty_response and ee = paris_ee and u = ucd_excerpt]
    by (simp add: 6 7)
qed

text \<open>
  Claim C5. Without the geocoding key every request to either endpoint fails at first
  use with a 500 whose detail says the key is not configured. Without the project
  identifier the initialization block reports the missing variable at startup and leaves
  the service library uninitialized; from then on no request to either endpoint returns
  a result, and a request whose city is geocoded fails with a 500 whose detail carries
  the library's error.
\<close>

theorem unconfigured_server_fails:
  "(unset (OPENWEATHER_API_KEY cfg) \<longrightarrow>
      get_green_cover u cfg net ee c
        = Inl (HTTPException 500 ''OpenWeatherMap API key is not configured on the server.'')
    \<and> get_heat_map u cfg net ee c
        = Inl (HTTPException 500 ''OpenWeatherMap API key is not configured on the server.''))
  \<and> (unset (GOOGLE_CLOUD_PROJECT cfg) \<longrightarrow>
      module_init cfg ee_initialize
        = (False, ''ERROR: Google Earth Engine failed to initialize. Details: ''
                  @ ''GOOGLE_CLOUD_PROJECT environment variable not set.'')
      \<and> (\<exists>code detail. get_green_cover u cfg net (start cfg ee_initialize ee) c
                          = Inl (HTTPException code detail))
      \<and> (\<exists>code detail. get_heat_map u cfg net (start cfg ee_initialize ee) c
                          = Inl (HTTPException code detail))
      \<and> (\<forall>lat lon. get_city_coords cfg net c = Inr (lat, lon) \<longrightarrow>
            get_green_cover u cfg net (start cfg ee_initialize ee) c
              = Inl (HTTPException 500
                  (''An error occurred with Google Earth Engine: '' @ not_initialized_message))
          \<and> get_heat_map u cfg net (start cfg ee_initialize ee) c
              = Inl (HTTPException 500
                  (''An error occurred with Google Earth Engine: '' @ not_initialized_message))))"
  using reraise_http
  by (auto simp: get_green_cover_def get_heat_map_def get_city_coords_def module_init_def
      start_def ee_scene_def split: sum.splits prod.splits)

theorem unconfigured_server_fails_witness:
  "unset (OPENWEATHER_API_KEY no_key_cfg)
   \<and> get_green_cover ucd_excerpt no_key_cfg paris_net paris_ee (text_of ''Paris'')
       = Inl (HTTPException 500 ''OpenWeatherMap API key is not configured on the server.'')
   \<and> unset (GOOGLE_CLOUD_PROJECT no_project_cfg)
   \<and> get_city_coords no_project_cfg paris_net (text_of ''Paris'')
       = Inr (JFloat 48.8566, JFloat 2.3522)
   \<and> get_green_cover ucd_excerpt no_project_cfg paris_net
         (start no_project_cfg initialize_ok paris_ee) (text_of ''Paris'')
       = Inl (HTTPException 500
           (''An error occurred with Google Earth Engine: '' @ not_initialized_message))
   \<and> get_heat_map ucd_excerpt no_project_cfg paris_net
         (start no_project_cfg initialize_ok paris_ee) (text_of ''Paris'')
       = Inl (HTTPException 500
           (''An error occurred with Google Earth Engine: '' @ not_initialized_message))"
proof -
  have 1: "unset (OPENWEATHER_API_KEY no_key_cfg)"
    by (simp add: no_key_cfg_def unset_def)
  have 2: "unset (GOOGLE_CLOUD_PROJECT no_project_cfg)"
    by (simp add: no_project_cfg_def unset_def)
  have 3: "get_city_coords no_project_cfg paris_net (text_of ''Paris'')
             = Inr (JFloat 48.8566, JFloat 2.3522)"
    by (simp add: get_city_coords_def no_project_cfg_def paris_net_def paris_response_def
        unset_def response_json_def coords_of_def)
  show ?thesis
    using 1 2 3
      unconfigured_server_fails
        [where cfg = no_key_cfg and net = paris_net and ee = paris_ee
           and c = "text_of ''Paris''" and ee_initialize = initialize_ok and u = ucd_excerpt]
      unconfigured_server_fails
        [where cfg = no_project_cfg and net = paris_net and ee = paris_ee
           and c = "text_of ''Paris''" and ee_initialize = initialize_ok and u = ucd_excerpt]
    by simp
qed

section \<open>Properties of the dashboard client\<close>

lemma get_city_data_unsupported:
  "k \<noteq> ''Green Cover'' \<Longrightarrow> k \<noteq> ''Heat Map'' \<Longrightarrow>
   get_city_data lib net c k = ([], Inr (JObj [(''error'', JStr ''Invalid analysis type selected.'')]))"
  by (simp add: get_city_data_def endpoint_map_def)

lemma fetch_unsupported:
  assumes "analysis_type s \<noteq> ''Green Cover''" and "analysis_type s \<noteq> ''Heat Map''"
  shows "fetch lib net w s =
    (if submitted w \<and> city_input w \<noteq> []
     then (s\<lparr>city := city_input w, map_data := JNull, metrics := JNull,
              error := JStr ''Invalid analysis type selected.''\<rparr>, [], None)
     else (s, [], None))"
  using assms by (simp add: fetch_def get_city_data_unsupported)

lemma render_unsupported:
  "analysis_type s \<noteq> ''Green Cover'' \<Longrightarrow> analysis_type s \<noteq> ''Heat Map'' \<Longrightarrow>
   render lib s = ([Header (analysis_type s),
      Warning ''This feature is under construction. Please check back later!''], Stopped)"
  by (simp add: render_def)

text \<open>
  Claim C6. In a run of the script with a selected analysis kind other than
  \<open>Green Cover\<close> and \<open>Heat Map\<close>, whatever the form holds, no URL is requested, the run
  does not depend on the network at all, and the page is the header of the kind
  followed by the under-construction warning, where the script stops.
\<close>

theorem unsupported_kind_short_circuits:
  assumes "radio w \<noteq> ''Green Cover''" and "radio w \<noteq> ''Heat Map''"
  shows "requested (script lib net w s) = []
    \<and> script lib net w s = script lib net' w s
    \<and> page (script lib net w s) =
        [Header (radio w), Warning ''This feature is under construction. Please check back later!'']
    \<and> ending (script lib net w s) = Stopped"
  using assms by (simp add: script_def fetch_unsupported render_unsupported)

theorem unsupported_kind_short_circuits_witness:
  "radio submit_flood \<noteq> ''Green Cover'' \<and> radio submit_flood \<noteq> ''Heat Map''
   \<and> requested (script plain_lib paris_net submit_flood paris_session) = []
   \<and> script plain_lib paris_net submit_flood paris_session
       = script plain_lib refusing_net submit_flood paris_session
   \<and> page (script plain_lib paris_net submit_flood paris_session) =
        [Header ''Flood Risk'',
         Warning ''This feature is under construction. Please check back later!'']
   \<and> ending (script plain_lib paris_net submit_flood paris_session) = Stopped"
proof -
  have 1: "radio submit_flood = ''Flood Risk''"
    by (simp add: submit_flood_def)
  have 2: "radio submit_flood \<noteq> ''Green Cover''" and 3: "radio submit_flood \<noteq> ''Heat Map''"
    by (simp_all add: submit_flood_def)
  show ?thesis
    using 2 3 unsupported_kind_short_circuits
      [OF 2 3, where lib = plain_lib and net = paris_net and s = paris_session
         and net' = refusing_net]
    unfolding 1 by blast
qed

text \<open>
  Claim C10. A run of the script in which the form is submitted with an empty city
  requests no URL, does not depend on the network, and leaves the session fields
  \<open>city\<close>, \<open>metrics\<close>, \<open>map_data\<close> and \<open>error\<close> as they were.
\<close>

theorem empty_city_submission_is_noop:
  assumes "submitted w" and "city_input w = []"
  shows "requested (script lib net w s) = []
    \<and> script lib net w s = script lib net' w s
    \<and> city (after (script lib net w s)) = city s
    \<and> metrics (after (script lib net w s)) = metrics s
    \<and> map_data (after (script lib net w s)) = map_data s
    \<and> error (after (script lib net w s)) = error s"
  using assms by (simp add: script_def fetch_def split: prod.splits option.splits)

theorem empty_city_submission_is_noop_witness:
  "submitted submit_empty \<and> city_input submit_empty = []
   \<and> requested (script plain_lib refusing_net submit_empty paris_session) = []
   \<and> script plain_lib refusing_net submit_empty paris_session
       = script plain_lib paris_net submit_empty paris_session
   \<and> city (after (script plain_lib refusing_net submit_empty paris_session)) = city paris_session
   \<and> metrics (after (script plain_lib refusing_net submit_empty paris_session))
       = metrics paris_session
   \<and> map_data (after (script plain_lib refusing_net submit_empty paris_session))
       = map_data paris_session
   \<and> error (after (script plain_lib refusing_net submit_empty paris_session))
       = error paris_session"
proof -
  have 1: "submitted submit_empty" and 2: "city_input submit_empty = []"
    by (simp_all add: submit_empty_def)
  show ?thesis
    using 1 2 empty_city_submission_is_noop
      [OF 1 2, where lib = plain_lib and net = refusing_net and s = paris_session
         and net' = paris_net]
    by blast
qed









end
